theory Spec2Isabelle
  imports Main
begin

section \<open>The scheduling module \<^verbatim>\<open>src/algorithms.py\<close>\<close>

subsection \<open>Results\<close>

text \<open>
  One element of the returned \<^verbatim>\<open>"schedule"\<close> list: a dictionary with five integer
  fields, in the order in which the source writes them.
\<close>

record entry =
  task_id :: int
  node_id :: int
  end_time :: int
  deadline :: int
  start_time :: int

text \<open>
  The dictionary every entry point returns:
  \<^verbatim>\<open>{"schedule": ..., "missed_deadlines": ..., "name": ...}\<close>.
\<close>

record schedule_result =
  schedule :: "entry list"
  missed_deadlines :: "int list"
  name :: string

text \<open>
  The error kinds the claims speak of. The source has no \<^verbatim>\<open>raise\<close> statement and calls
  nothing that could raise; an outcome is nevertheless a sum, \<open>Inl\<close> for a raised error
  and \<open>Inr\<close> for a returned dictionary, so that "raises" and "returns" are both
  expressible and can be told apart.
\<close>

datatype error =
  CyclicDependencyError
  | UnknownJobReferenceError
  | InfeasiblePolicyInputError
  | UnschedulableNodeError

subsection \<open>Module state\<close>

text \<open>
  The module has one global binding, the list \<^verbatim>\<open>example_schedule\<close>. The functions look
  it up when they are called and hand the very same list object to the caller, so
  the binding is modelled as state that each call receives and returns.
\<close>

record globals =
  example_schedule :: "entry list"

text \<open>The state after the module has been imported (source lines 19 to 48).\<close>

definition module_init :: globals where
  "module_init = \<lparr>example_schedule =
     [\<lparr>task_id = 3, node_id = 0, end_time = 20, deadline = 256, start_time = 0\<rparr>,
      \<lparr>task_id = 2, node_id = 0, end_time = 40, deadline = 300, start_time = 20\<rparr>,
      \<lparr>task_id = 1, node_id = 0, end_time = 60, deadline = 250, start_time = 40\<rparr>,
      \<lparr>task_id = 0, node_id = 0, end_time = 80, deadline = 250, start_time = 60\<rparr>]\<rparr>"

subsection \<open>The five entry points\<close>

text \<open>
  The parameters \<^verbatim>\<open>application_data\<close> and \<^verbatim>\<open>platform_data\<close> are untyped Python values
  whose shape the module never declares and never inspects; they are type
  parameters here. A call yields its outcome and the module state after it.
\<close>

definition ldf_single_node :: "'a \<Rightarrow> globals \<Rightarrow> (error + schedule_result) \<times> globals" where
  "ldf_single_node application_data g =
     (Inr \<lparr>schedule = example_schedule g, missed_deadlines = [],
            name = ''LDF Single-node''\<rparr>, g)"

definition edf_single_node :: "'a \<Rightarrow> globals \<Rightarrow> (error + schedule_result) \<times> globals" where
  "edf_single_node application_data g =
     (Inr \<lparr>schedule = example_schedule g, missed_deadlines = [],
            name = ''EDF Single-node''\<rparr>, g)"

definition ll_multinode_no_delay ::
  "'a \<Rightarrow> 'b \<Rightarrow> globals \<Rightarrow> (error + schedule_result) \<times> globals" where
  "ll_multinode_no_delay application_data platform_data g =
     (Inr \<lparr>schedule = example_schedule g, missed_deadlines = [],
            name = ''LL(without delay)''\<rparr>, g)"

definition ldf_multinode_no_delay ::
  "'a \<Rightarrow> 'b \<Rightarrow> globals \<Rightarrow> (error + schedule_result) \<times> globals" where
  "ldf_multinode_no_delay application_data platform_data g =
     (Inr \<lparr>schedule = example_schedule g, missed_deadlines = [],
            name = ''LDF Multinode(without delay)''\<rparr>, g)"

definition edf_multinode_no_delay ::
  "'a \<Rightarrow> 'b \<Rightarrow> globals \<Rightarrow> (error + schedule_result) \<times> globals" where
  "edf_multinode_no_delay application_data platform_data g =
     (Inr \<lparr>schedule = example_schedule g, missed_deadlines = [],
            name = ''EDF Multinode(without delay)''\<rparr>, g)"

subsection \<open>Reading a schedule\<close>

text \<open>The time span of an entry, as the pair (start, end).\<close>

definition entry_span :: "entry \<Rightarrow> int \<times> int" where
  "entry_span e = (start_time e, end_time e)"

definition entry_times :: "entry \<Rightarrow> int \<times> int \<times> int" where
  "entry_times e = (deadline e, start_time e, end_time e)"

text \<open>
  An entry keeps its node busy from its start time up to, but not including, its end
  time: consecutive entries of \<^verbatim>\<open>example_schedule\<close> meet at 20, 40 and 60.
\<close>

definition occupies :: "entry \<Rightarrow> int \<Rightarrow> bool" where
  "occupies e t = (start_time e \<le> t \<and> t < end_time e)"

subsection \<open>Inputs\<close>

text \<open>
  Modelled from the spec: the shape of \<^verbatim>\<open>application_data\<close> and \<^verbatim>\<open>platform_data\<close>, which
  callers build and the module only receives. A job has an identifier, an execution
  time, a deadline, an optional period and a release time; a message is a dependency
  edge from a producer job to a consumer job with a payload size; a platform lists
  node identifiers and links (two node identifiers and a latency).
\<close>

record job =
  job_id :: int
  execution_time :: int
  job_deadline :: int
  period :: "int option"
  release_time :: int

record message =
  producer :: int
  consumer :: int
  payload_size :: int

record application =
  jobs :: "job list"
  messages :: "message list"

record platform =
  nodes :: "int list"
  links :: "(int \<times> int \<times> int) list"

text \<open>The dependency relation of a message list, and what it means to contain a cycle.\<close>

definition edge_rel :: "message list \<Rightarrow> (int \<times> int) set" where
  "edge_rel ms = set (map (\<lambda>m. (producer m, consumer m)) ms)"

definition has_cycle :: "message list \<Rightarrow> bool" where
  "has_cycle ms = (\<exists>x. (x, x) \<in> (edge_rel ms)\<^sup>+)"

text \<open>
  Precedence in a schedule, with no transfer delay (one node, or the no-delay
  variants): for every message, every entry of the consumer starts no earlier than
  every entry of the producer ends.
\<close>

definition precedence_respected :: "message list \<Rightarrow> entry list \<Rightarrow> bool" where
  "precedence_respected ms es =
     list_all (\<lambda>m. list_all (\<lambda>c. list_all (\<lambda>p.
        if task_id c = consumer m \<and> task_id p = producer m
        then end_time p \<le> start_time c else True) es) es) ms"

text \<open>A platform of two nodes joined by one link of latency 5.\<close>

definition two_nodes :: platform where
  "two_nodes = \<lparr>nodes = [0, 1], links = [(0, 1, 5)]\<rparr>"

text \<open>
  Three independent jobs with execution times 10, 20, 30 and deadlines 15, 100, 50,
  all released at time 0.
\<close>

definition edf_scenario :: application where
  "edf_scenario = \<lparr>jobs =
     [\<lparr>job_id = 0, execution_time = 10, job_deadline = 15, period = None, release_time = 0\<rparr>,
      \<lparr>job_id = 1, execution_time = 20, job_deadline = 100, period = None, release_time = 0\<rparr>,
      \<lparr>job_id = 2, execution_time = 30, job_deadline = 50, period = None, release_time = 0\<rparr>],
     messages = []\<rparr>"

text \<open>Three jobs A = 0, B = 1, C = 2 with the edges A to B, B to C and C to A.\<close>

definition cyclic_input :: application where
  "cyclic_input = \<lparr>jobs =
     [\<lparr>job_id = 0, execution_time = 10, job_deadline = 100, period = None, release_time = 0\<rparr>,
      \<lparr>job_id = 1, execution_time = 10, job_deadline = 100, period = None, release_time = 0\<rparr>,
      \<lparr>job_id = 2, execution_time = 10, job_deadline = 100, period = None, release_time = 0\<rparr>],
     messages =
     [\<lparr>producer = 0, consumer = 1, payload_size = 1\<rparr>,
      \<lparr>producer = 1, consumer = 2, payload_size = 1\<rparr>,
      \<lparr>producer = 2, consumer = 0, payload_size = 1\<rparr>]\<rparr>"

text \<open>
  The four jobs that \<^verbatim>\<open>example_schedule\<close> mentions, each of execution time 20 and with
  the deadline the example gives it, and one dependency: job 0 produces for job 3.
\<close>

definition precedence_input :: application where
  "precedence_input = \<lparr>jobs =
     [\<lparr>job_id = 0, execution_time = 20, job_deadline = 250, period = None, release_time = 0\<rparr>,
      \<lparr>job_id = 1, execution_time = 20, job_deadline = 250, period = None, release_time = 0\<rparr>,
      \<lparr>job_id = 2, execution_time = 20, job_deadline = 300, period = None, release_time = 0\<rparr>,
      \<lparr>job_id = 3, execution_time = 20, job_deadline = 256, period = None, release_time = 0\<rparr>],
     messages = [\<lparr>producer = 0, consumer = 3, payload_size = 1\<rparr>]\<rparr>"

text \<open>A single job 0 of execution time 50 and deadline 30, released at time 0.\<close>

definition miss_input :: application where
  "miss_input = \<lparr>jobs =
     [\<lparr>job_id = 0, execution_time = 50, job_deadline = 30, period = None, release_time = 0\<rparr>],
     messages = []\<rparr>"

section \<open>Properties that hold for every input\<close>

lemmas entry_points =
  ldf_single_node_def edf_single_node_def ll_multinode_no_delay_def
  ldf_multinode_no_delay_def edf_multinode_no_delay_def

text \<open>No entry point rebinds or mutates the global list.\<close>

lemma entry_points_keep_globals:
  "snd (ldf_single_node ad g) = g"
  "snd (edf_single_node ad g) = g"
  "snd (ll_multinode_no_delay ad pd g) = g"
  "snd (ldf_multinode_no_delay ad pd g) = g"
  "snd (edf_multinode_no_delay ad pd g) = g"
  by (simp_all add: entry_points)

text \<open>
  Claim C8. Whatever \<^verbatim>\<open>application_data\<close> and \<^verbatim>\<open>platform_data\<close> are, each of the five
  functions returns the same dictionary: the four entries with task ids 3, 2, 1, 0,
  all on node 0, over the spans (0,20), (20,40), (40,60), (60,80), an empty
  \<^verbatim>\<open>missed_deadlines\<close> list, and the name string of that function.
\<close>

theorem C8_constant_result:
  "fst (ldf_single_node ad module_init) =
     Inr \<lparr>schedule = example_schedule module_init, missed_deadlines = [],
          name = ''LDF Single-node''\<rparr>
   \<and> fst (edf_single_node ad module_init) =
     Inr \<lparr>schedule = example_schedule module_init, missed_deadlines = [],
          name = ''EDF Single-node''\<rparr>
   \<and> fst (ll_multinode_no_delay ad pd module_init) =
     Inr \<lparr>schedule = example_schedule module_init, missed_deadlines = [],
          name = ''LL(without delay)''\<rparr>
   \<and> fst (ldf_multinode_no_delay ad pd module_init) =
     Inr \<lparr>schedule = example_schedule module_init, missed_deadlines = [],
          name = ''LDF Multinode(without delay)''\<rparr>
   \<and> fst (edf_multinode_no_delay ad pd module_init) =
     Inr \<lparr>schedule = example_schedule module_init, missed_deadlines = [],
          name = ''EDF Multinode(without delay)''\<rparr>
   \<and> map task_id (example_schedule module_init) = [3, 2, 1, 0]
   \<and> map node_id (example_schedule module_init) = [0, 0, 0, 0]
   \<and> map entry_span (example_schedule module_init) = [(0, 20), (20, 40), (40, 60), (60, 80)]"
  by (simp add: entry_points module_init_def entry_span_def)

text \<open>
  Claim C9. No entry point raises: for every input and every module state each of
  the five functions returns a dictionary, so none of the four error kinds (nor any
  other) is ever the outcome.
\<close>

theorem C9_never_raises:
  "(\<exists>r. fst (ldf_single_node ad g) = Inr r)
   \<and> (\<exists>r. fst (edf_single_node ad g) = Inr r)
   \<and> (\<exists>r. fst (ll_multinode_no_delay ad pd g) = Inr r)
   \<and> (\<exists>r. fst (ldf_multinode_no_delay ad pd g) = Inr r)
   \<and> (\<exists>r. fst (edf_multinode_no_delay ad pd g) = Inr r)"
  by (simp add: entry_points)

text \<open>
  Claim C10. For every input, \<^verbatim>\<open>edf_single_node\<close> and \<^verbatim>\<open>ldf_single_node\<close> return
  dictionaries with the same \<^verbatim>\<open>schedule\<close> and the same \<^verbatim>\<open>missed_deadlines\<close>; only the
  \<^verbatim>\<open>name\<close> differs.
\<close>

theorem C10_single_node_policies_agree:
  "\<exists>r1 r2. fst (edf_single_node ad g) = Inr r1 \<and> fst (ldf_single_node ad g) = Inr r2
     \<and> schedule r1 = schedule r2 \<and> missed_deadlines r1 = missed_deadlines r2
     \<and> name r1 \<noteq> name r2"
  by (simp add: entry_points)

text \<open>
  Claim C7. Two invocations of the same entry point on the same input, one after the
  other, give identical dictionaries (same entries in the same order, same
  \<^verbatim>\<open>missed_deadlines\<close>, same \<^verbatim>\<open>name\<close>), whatever the module state before the first call:
  the first call leaves nothing behind that the second could see.
\<close>

theorem C7_deterministic:
  "fst (ldf_single_node ad (snd (ldf_single_node ad g))) = fst (ldf_single_node ad g)
   \<and> fst (edf_single_node ad (snd (edf_single_node ad g))) = fst (edf_single_node ad g)
   \<and> fst (ll_multinode_no_delay ad pd (snd (ll_multinode_no_delay ad pd g))) =
       fst (ll_multinode_no_delay ad pd g)
   \<and> fst (ldf_multinode_no_delay ad pd (snd (ldf_multinode_no_delay ad pd g))) =
       fst (ldf_multinode_no_delay ad pd g)
   \<and> fst (edf_multinode_no_delay ad pd (snd (edf_multinode_no_delay ad pd g))) =
       fst (edf_multinode_no_delay ad pd g)"
  by (simp add: entry_points)

section \<open>Single-node schedules do not overlap\<close>

lemma single_node_schedule:
  assumes "fst (edf_single_node ad module_init) = Inr r
           \<or> fst (ldf_single_node ad module_init) = Inr r"
  shows "schedule r = example_schedule module_init"
  using assms by (auto simp add: entry_points)

lemma example_schedule_no_overlap:
  assumes "i < j" and "j < length (example_schedule module_init)"
  shows "\<not> (occupies (example_schedule module_init ! i) t
            \<and> occupies (example_schedule module_init ! j) t)"
proof -
  from assms(2) have "j < 4" by (simp add: module_init_def)
  then consider "j = 0" | "j = 1" | "j = 2" | "j = 3" by linarith
  then show ?thesis
  proof cases
    case 1
    with assms(1) show ?thesis by simp
  next
    case 2
    with assms(1) have "i = 0" by simp
    with 2 show ?thesis by (simp add: module_init_def occupies_def)
  next
    case 3
    with assms(1) consider "i = 0" | "i = 1" by linarith
    then show ?thesis using 3 by cases (simp_all add: module_init_def occupies_def)
  next
    case 4
    with assms(1) consider "i = 0" | "i = 1" | "i = 2" by linarith
    then show ?thesis using 4 by cases (simp_all add: module_init_def occupies_def)
  qed
qed

text \<open>
  Claim C6. For every input, the entries of the schedule that \<^verbatim>\<open>edf_single_node\<close> or
  \<^verbatim>\<open>ldf_single_node\<close> returns are pairwise non-overlapping: no instant is occupied by
  two different entries of the list (all of them are on node 0).
\<close>

theorem C6_single_node_no_overlap:
  assumes "fst (edf_single_node ad module_init) = Inr r
           \<or> fst (ldf_single_node ad module_init) = Inr r"
    and "i < j" and "j < length (schedule r)"
  shows "\<not> (occupies (schedule r ! i) t \<and> occupies (schedule r ! j) t)"
  using example_schedule_no_overlap [of i j t] single_node_schedule [OF assms(1)] assms(2,3)
  by simp

theorem C6_single_node_no_overlap_witness:
  "fst (edf_single_node edf_scenario module_init) =
     Inr \<lparr>schedule = example_schedule module_init, missed_deadlines = [],
          name = ''EDF Single-node''\<rparr>
   \<and> (0::nat) < 1 \<and> (1::nat) < length (example_schedule module_init)
   \<and> occupies (example_schedule module_init ! 1) 20
   \<and> \<not> occupies (example_schedule module_init ! 0) 20"
  using C6_single_node_no_overlap [of edf_scenario
      "\<lparr>schedule = example_schedule module_init, missed_deadlines = [],
        name = ''EDF Single-node''\<rparr>" 0 1 20]
  by (simp add: edf_single_node_def module_init_def occupies_def)

section \<open>The EDF scenario of three independent jobs\<close>

text \<open>
  Claim C1 at its own input. For the three independent jobs 0, 1, 2 with execution
  times 10, 20, 30 and deadlines 15, 100, 50, \<^verbatim>\<open>edf_single_node\<close> returns normally with an
  empty \<^verbatim>\<open>missed_deadlines\<close> list, but the schedule is not the one the claim lists
  (deadline 15 over 0 to 10, deadline 50 over 10 to 40, deadline 100 over 40 to 70),
  nor any earliest-deadline-first ordering of the given jobs: it has four entries,
  its first entry is for a task 3 that the input does not contain, none of the
  input's deadlines occurs in it, and its deadlines 256, 300, 250, 250 are not in
  ascending order.
\<close>

theorem C1_edf_scenario_not_scheduled:
  "map job_id (jobs edf_scenario) = [0, 1, 2]
   \<and> map execution_time (jobs edf_scenario) = [10, 20, 30]
   \<and> map job_deadline (jobs edf_scenario) = [15, 100, 50]
   \<and> messages edf_scenario = []
   \<and> fst (edf_single_node edf_scenario module_init) =
       Inr \<lparr>schedule = example_schedule module_init, missed_deadlines = [],
            name = ''EDF Single-node''\<rparr>
   \<and> map entry_times (example_schedule module_init) =
       [(256, 0, 20), (300, 20, 40), (250, 40, 60), (250, 60, 80)]
   \<and> map entry_times (example_schedule module_init) \<noteq>
       [(15, 0, 10), (50, 10, 40), (100, 40, 70)]
   \<and> length (example_schedule module_init) \<noteq> length (jobs edf_scenario)
   \<and> task_id (example_schedule module_init ! 0) = 3
   \<and> 3 \<notin> set (map job_id (jobs edf_scenario))
   \<and> 15 \<notin> set (map deadline (example_schedule module_init))
   \<and> sorted (map deadline (example_schedule module_init)) = False"
  by (simp add: edf_single_node_def module_init_def entry_times_def edf_scenario_def)

section \<open>Cyclic dependencies\<close>

lemma cyclic_input_has_cycle: "has_cycle (messages cyclic_input)"
proof -
  let ?R = "edge_rel (messages cyclic_input)"
  have e: "(0, 1) \<in> ?R" "(1, 2) \<in> ?R" "(2, 0) \<in> ?R"
    by (simp_all add: edge_rel_def cyclic_input_def)
  from e(1) have "(0, 1) \<in> ?R\<^sup>+" by (rule r_into_trancl)
  from this e(2) have "(0, 2) \<in> ?R\<^sup>+" by (rule trancl_into_trancl)
  from this e(3) have "(0, 0) \<in> ?R\<^sup>+" by (rule trancl_into_trancl)
  then show ?thesis unfolding has_cycle_def by (rule exI)
qed

text \<open>
  Claim C2 at a cyclic input. The jobs 0, 1, 2 with the edges 0 to 1, 1 to 2 and
  2 to 0 form a cycle, and every entry point returns a dictionary for them instead
  of raising \<^verbatim>\<open>CyclicDependencyError\<close>. The schedule it returns has an entry for a task 3
  that the input does not contain, and it runs the consumer of each of the edges
  0 to 1 and 1 to 2 before its producer.
\<close>

theorem C2_cycle_scheduled:
  "has_cycle (messages cyclic_input)
   \<and> map job_id (jobs cyclic_input) = [0, 1, 2]
   \<and> fst (ldf_single_node cyclic_input module_init) =
       Inr \<lparr>schedule = example_schedule module_init, missed_deadlines = [],
            name = ''LDF Single-node''\<rparr>
   \<and> fst (edf_single_node cyclic_input module_init) =
       Inr \<lparr>schedule = example_schedule module_init, missed_deadlines = [],
            name = ''EDF Single-node''\<rparr>
   \<and> fst (ll_multinode_no_delay cyclic_input two_nodes module_init) =
       Inr \<lparr>schedule = example_schedule module_init, missed_deadlines = [],
            name = ''LL(without delay)''\<rparr>
   \<and> fst (ldf_multinode_no_delay cyclic_input two_nodes module_init) =
       Inr \<lparr>schedule = example_schedule module_init, missed_deadlines = [],
            name = ''LDF Multinode(without delay)''\<rparr>
   \<and> fst (edf_multinode_no_delay cyclic_input two_nodes module_init) =
       Inr \<lparr>schedule = example_schedule module_init, missed_deadlines = [],
            name = ''EDF Multinode(without delay)''\<rparr>
   \<and> fst (ldf_single_node cyclic_input module_init) \<noteq> Inl CyclicDependencyError
   \<and> fst (edf_single_node cyclic_input module_init) \<noteq> Inl CyclicDependencyError
   \<and> fst (ll_multinode_no_delay cyclic_input two_nodes module_init) \<noteq>
       Inl CyclicDependencyError
   \<and> fst (ldf_multinode_no_delay cyclic_input two_nodes module_init) \<noteq>
       Inl CyclicDependencyError
   \<and> fst (edf_multinode_no_delay cyclic_input two_nodes module_init) \<noteq>
       Inl CyclicDependencyError
   \<and> map task_id (example_schedule module_init) = [3, 2, 1, 0]
   \<and> 3 \<notin> set (map job_id (jobs cyclic_input))
   \<and> precedence_respected (messages cyclic_input) (example_schedule module_init) = False"
  using cyclic_input_has_cycle
  by (simp add: entry_points precedence_respected_def cyclic_input_def module_init_def)

section \<open>Precedence\<close>

lemma precedence_input_acyclic: "\<not> has_cycle (messages precedence_input)"
  by (simp add: has_cycle_def edge_rel_def precedence_input_def trancl_insert)

text \<open>
  Claim C3 at a valid input. Jobs 0 to 3 with the single dependency "job 0 produces
  for job 3" form a DAG, yet in the schedule that \<^verbatim>\<open>edf_single_node\<close> and
  \<^verbatim>\<open>edf_multinode_no_delay\<close> return job 3 starts at time 0 while its predecessor job 0
  ends at time 80: precedence is not respected.
\<close>

theorem C3_precedence_violated:
  "\<not> has_cycle (messages precedence_input)
   \<and> fst (edf_single_node precedence_input module_init) =
       Inr \<lparr>schedule = example_schedule module_init, missed_deadlines = [],
            name = ''EDF Single-node''\<rparr>
   \<and> fst (edf_multinode_no_delay precedence_input two_nodes module_init) =
       Inr \<lparr>schedule = example_schedule module_init, missed_deadlines = [],
            name = ''EDF Multinode(without delay)''\<rparr>
   \<and> precedence_respected (messages precedence_input) (example_schedule module_init) = False
   \<and> map task_id (example_schedule module_init) = [3, 2, 1, 0]
   \<and> start_time (example_schedule module_init ! 0) = 0
   \<and> end_time (example_schedule module_init ! 3) = 80"
  using precedence_input_acyclic
  by (simp add: entry_points precedence_respected_def precedence_input_def module_init_def)

section \<open>Deadline misses\<close>

text \<open>
  Claim C4 at a concrete input. For the single job 0 with execution time 50 and
  deadline 30, \<^verbatim>\<open>edf_single_node\<close> and \<^verbatim>\<open>edf_multinode_no_delay\<close> return normally, and the
  \<^verbatim>\<open>missed_deadlines\<close> list they return does not contain job 0: it is empty.
\<close>

theorem C4_miss_not_recorded:
  "map job_id (jobs miss_input) = [0]
   \<and> map execution_time (jobs miss_input) = [50]
   \<and> map job_deadline (jobs miss_input) = [30]
   \<and> (\<exists>r. fst (edf_single_node miss_input module_init) = Inr r
          \<and> 0 \<notin> set (missed_deadlines r) \<and> missed_deadlines r = [])
   \<and> (\<exists>r. fst (edf_multinode_no_delay miss_input two_nodes module_init) = Inr r
          \<and> 0 \<notin> set (missed_deadlines r) \<and> missed_deadlines r = [])"
  by (simp add: entry_points miss_input_def)

section \<open>Node placement\<close>

text \<open>
  Every entry of every returned schedule is on node 0, also for the multi-node
  entry points and whatever the platform: no two entries are ever on different
  nodes.
\<close>

lemma entries_on_node_0:
  assumes "fst (ldf_single_node ad module_init) = Inr r
           \<or> fst (edf_single_node ad module_init) = Inr r
           \<or> fst (ll_multinode_no_delay ad pd module_init) = Inr r
           \<or> fst (ldf_multinode_no_delay ad pd module_init) = Inr r
           \<or> fst (edf_multinode_no_delay ad pd module_init) = Inr r"
    and "e \<in> set (schedule r)"
  shows "node_id e = 0"
  using assms by (auto simp add: entry_points module_init_def)

end
